theory Spec2Isabelle
  imports Complex_Main "HOL-Library.Char_ord" "HOL-Library.List_Lexorder" "HOL-Library.Multiset"
begin

section \<open>SnapVolt backend: product listing and authentication\<close>

text \<open>
  A shallow embedding of \<^verbatim>\<open>backend/database.py\<close> and \<^verbatim>\<open>backend/routes.py\<close>.
  Python strings are lists of 8-bit characters (code points below 256), Python
  integers are \<open>int\<close>, the two tables are lists of rows in the order in which the
  engine scans them, and every exception of the source is an \<open>Inl\<close> result.
  A \<^verbatim>\<open>Float\<close> column is only ever compared, never computed with; it holds the
  rational number that the stored double denotes, written here with the decimal
  literal of the source.
\<close>

datatype error = ValueError | AttributeError | JSONDecodeError

section \<open>Strings\<close>

text \<open>\<^verbatim>\<open>str.lower()\<close> on the letters \<open>A\<close> to \<open>Z\<close>; every other character is kept.\<close>

definition lower_char :: "char \<Rightarrow> char" where
  "lower_char c =
     (case map_of (zip ''ABCDEFGHIJKLMNOPQRSTUVWXYZ'' ''abcdefghijklmnopqrstuvwxyz'') c of
        None \<Rightarrow> c
      | Some l \<Rightarrow> l)"

definition lower :: "string \<Rightarrow> string" where
  "lower s = map lower_char s"

section \<open>Lists of strings as JSON text\<close>

text \<open>
  The two sequence-valued columns are stored as the text that \<^verbatim>\<open>json.dumps\<close> writes
  for a list of strings and read back with \<^verbatim>\<open>json.loads\<close>. The encoder follows
  \<^verbatim>\<open>json.encoder\<close> with its defaults (\<^verbatim>\<open>ensure_ascii\<close>, separator comma and space):
  quotation mark and backslash get a backslash, the five control characters with a
  short form use it, every other character outside space to tilde is written as
  \<^verbatim>\<open>\u00XX\<close> with lower-case digits.
\<close>

definition hexdigit :: "nat \<Rightarrow> char" where
  "hexdigit k = ''0123456789abcdef'' ! k"

definition escape_char :: "char \<Rightarrow> string" where
  "escape_char c =
     (if c = CHR ''\"'' then [CHR 0x5C, CHR ''\"'']
      else if c = CHR 0x5C then [CHR 0x5C, CHR 0x5C]
      else if c = CHR 0x0A then [CHR 0x5C, CHR ''n'']
      else if c = CHR 0x0D then [CHR 0x5C, CHR ''r'']
      else if c = CHR 0x09 then [CHR 0x5C, CHR ''t'']
      else if c = CHR 0x0C then [CHR 0x5C, CHR ''f'']
      else if c = CHR 0x08 then [CHR 0x5C, CHR ''b'']
      else if 32 \<le> (of_char c :: nat) \<and> (of_char c :: nat) \<le> 126 then [c]
      else [CHR 0x5C, CHR ''u'', CHR ''0'', CHR ''0'',
            hexdigit (of_char c div 16), hexdigit (of_char c mod 16)])"

definition encode_string :: "string \<Rightarrow> string" where
  "encode_string s = CHR ''\"'' # concat (map escape_char s) @ [CHR ''\"'']"

fun encode_items :: "string list \<Rightarrow> string" where
  "encode_items [] = []"
| "encode_items (y # ys) = '', '' @ encode_string y @ encode_items ys"

fun json_dumps :: "string list \<Rightarrow> string" where
  "json_dumps [] = ''[]''"
| "json_dumps (x # xs) = ''['' @ encode_string x @ encode_items xs @ '']''"

text \<open>
  The decoder follows \<^verbatim>\<open>json.decoder\<close> on arrays of strings: \<^verbatim>\<open>scanstring\<close> reads
  a string literal after its opening quotation mark and returns the string and the
  text after the closing mark; the array parser skips white space around brackets and
  commas. The result \<open>None\<close> stands for every text that is not an array of strings
  over characters below 256: \<^verbatim>\<open>json.loads\<close> raises there, or returns a value that is
  not a list of such strings.
\<close>

definition hexval :: "char \<Rightarrow> nat option" where
  "hexval c =
     (let n = (of_char c :: nat)
      in if 48 \<le> n \<and> n \<le> 57 then Some (n - 48)
         else if 97 \<le> n \<and> n \<le> 102 then Some (n - 87)
         else if 65 \<le> n \<and> n \<le> 70 then Some (n - 55)
         else None)"

definition hex4 :: "char \<Rightarrow> char \<Rightarrow> char \<Rightarrow> char \<Rightarrow> nat option" where
  "hex4 a b c d =
     (case (hexval a, hexval b, hexval c, hexval d) of
        (Some h3, Some h2, Some h1, Some h0) \<Rightarrow> Some (((h3 * 16 + h2) * 16 + h1) * 16 + h0)
      | _ \<Rightarrow> None)"

definition unescape :: "char \<Rightarrow> char option" where
  "unescape e =
     (if e = CHR ''\"'' then Some (CHR ''\"'')
      else if e = CHR 0x5C then Some (CHR 0x5C)
      else if e = CHR ''/'' then Some (CHR ''/'')
      else if e = CHR ''b'' then Some (CHR 0x08)
      else if e = CHR ''f'' then Some (CHR 0x0C)
      else if e = CHR ''n'' then Some (CHR 0x0A)
      else if e = CHR ''r'' then Some (CHR 0x0D)
      else if e = CHR ''t'' then Some (CHR 0x09)
      else None)"

fun scanstring :: "string \<Rightarrow> (string \<times> string) option" where
  "scanstring [] = None"
| "scanstring (c # cs) =
     (if c = CHR ''\"'' then Some ([], cs)
      else if c = CHR 0x5C then
        (case cs of
           [] \<Rightarrow> None
         | e # es \<Rightarrow>
             if e = CHR ''u'' then
               (case es of
                  h3 # h2 # h1 # h0 # r \<Rightarrow>
                    (case hex4 h3 h2 h1 h0 of
                       None \<Rightarrow> None
                     | Some n \<Rightarrow>
                         if n < 256 then
                           (case scanstring r of
                              None \<Rightarrow> None
                            | Some (s, rest) \<Rightarrow> Some (char_of n # s, rest))
                         else None)
                | _ \<Rightarrow> None)
             else
               (case unescape e of
                  None \<Rightarrow> None
                | Some ch \<Rightarrow>
                    (case scanstring es of
                       None \<Rightarrow> None
                     | Some (s, rest) \<Rightarrow> Some (ch # s, rest))))
      else if (of_char c :: nat) < 32 then None
      else
        (case scanstring cs of
           None \<Rightarrow> None
         | Some (s, rest) \<Rightarrow> Some (c # s, rest)))"

definition is_ws :: "char \<Rightarrow> bool" where
  "is_ws c = (c = CHR '' '' \<or> c = CHR 0x09 \<or> c = CHR 0x0A \<or> c = CHR 0x0D)"

definition skip_ws :: "string \<Rightarrow> string" where
  "skip_ws s = dropWhile is_ws s"

text \<open>The scanner consumes at least the closing quotation mark.\<close>

lemma scanstring_shorter: "scanstring cs = Some (s, rest) \<Longrightarrow> length rest < length cs"
proof (induction cs arbitrary: s rest rule: scanstring.induct)
  case 1
  then show ?case by simp
next
  case (2 c cs)
  show ?case
  proof (cases "c = CHR ''\"''")
    case True
    with "2.prems" show ?thesis by simp
  next
    case nq: False
    show ?thesis
    proof (cases "c = CHR 0x5C")
      case True
      show ?thesis
      proof (cases cs)
        case Nil
        with "2.prems" nq True show ?thesis by simp
      next
        case (Cons e es)
        show ?thesis
        proof (cases "e = CHR ''u''")
          case u: True
          from "2.prems" nq True Cons u obtain h3 h2 h1 h0 r n s' where
            es: "es = h3 # h2 # h1 # h0 # r" and h: "hex4 h3 h2 h1 h0 = Some n" and n: "n < 256"
            and sc: "scanstring r = Some (s', rest)"
            by (auto split: list.splits option.splits if_splits)
          from "2.IH"(1)[OF nq True Cons u es refl refl refl h n sc]
          show ?thesis using Cons es by simp
        next
          case nu: False
          from "2.prems" nq True Cons nu obtain ch s' where
            un: "unescape e = Some ch" and sc: "scanstring es = Some (s', rest)"
            by (auto split: option.splits)
          from "2.IH"(2)[OF nq True Cons nu un sc]
          show ?thesis using Cons by simp
        qed
      qed
    next
      case nb: False
      from "2.prems" nq nb obtain s' where
        c: "\<not> (of_char c :: nat) < 32" and sc: "scanstring cs = Some (s', rest)"
        by (auto split: option.splits if_splits)
      from "2.IH"(3)[OF nq nb c sc] show ?thesis by simp
    qed
  qed
qed

lemma skip_ws_length: "length (skip_ws s) \<le> length s"
  by (simp add: skip_ws_def length_dropWhile_le)

text \<open>The elements of a non-empty array, from the opening mark of the first one.\<close>

function parse_elements :: "string \<Rightarrow> string list option" where
  "parse_elements s =
     (case s of
        [] \<Rightarrow> None
      | c # cs \<Rightarrow>
          if c = CHR ''\"'' then
            (case scanstring cs of
               None \<Rightarrow> None
             | Some (x, rest) \<Rightarrow>
                 (case skip_ws rest of
                    [] \<Rightarrow> None
                  | d # r \<Rightarrow>
                      if d = CHR '','' then
                        (case parse_elements (skip_ws r) of
                           None \<Rightarrow> None
                         | Some xs \<Rightarrow> Some (x # xs))
                      else if d = CHR '']'' then (if skip_ws r = [] then Some [x] else None)
                      else None))
          else None)"
  by pat_completeness auto
termination
proof (relation "measure length")
  show "wf (measure length)" by simp
next
  fix s :: string and c cs x2 x y d r
  assume a: "s = c # cs" "scanstring cs = Some x2" "(x, y) = x2" "skip_ws y = d # r"
  have "length y < length cs" using a(2,3) scanstring_shorter[of cs x y] by simp
  moreover have "length (d # r) \<le> length y" using skip_ws_length[of y] a(4) by simp
  moreover have "length (skip_ws r) \<le> length r" by (rule skip_ws_length)
  ultimately show "(skip_ws r, s) \<in> measure length" using a(1) by simp
qed

declare parse_elements.simps [simp del]

definition json_loads :: "string \<Rightarrow> string list option" where
  "json_loads s =
     (case skip_ws s of
        [] \<Rightarrow> None
      | c # r \<Rightarrow>
          if c = CHR ''['' then
            (case skip_ws r of
               [] \<Rightarrow> None
             | d # r' \<Rightarrow>
                 if d = CHR '']'' then (if skip_ws r' = [] then Some [] else None)
                 else parse_elements (d # r'))
          else None)"

section \<open>Products\<close>

text \<open>
  \<^verbatim>\<open>class Product\<close>: one row of the \<^verbatim>\<open>products\<close> table. The columns
  \<open>thumbnails\<close> and \<open>colors\<close> hold JSON text.
\<close>

record product =
  pid :: string
  name :: string
  category :: string
  price :: rat
  old_price :: "rat option"
  image_url :: string
  thumbnails :: string
  description :: string
  mock_reviews_text :: "string option"
  rating :: rat
  reviews :: int
  colors :: string
  is_new :: bool

text \<open>
  \<^verbatim>\<open>Product.__init__\<close>, with the parameters in the order of the source; a sequence
  argument is \<open>None\<close> when it is not supplied.
  \<^verbatim>\<open>json.dumps(thumbnails) if thumbnails else "[]"\<close>: \<^verbatim>\<open>None\<close> and the empty list are
  both false.
\<close>

definition dumps_or_empty :: "string list option \<Rightarrow> string" where
  "dumps_or_empty xs = (case xs of None \<Rightarrow> ''[]'' | Some l \<Rightarrow> if l \<noteq> [] then json_dumps l else ''[]'')"

definition Product_init ::
  "string \<Rightarrow> string \<Rightarrow> string \<Rightarrow> rat \<Rightarrow> string \<Rightarrow> string \<Rightarrow> rat \<Rightarrow> int
     \<Rightarrow> rat option \<Rightarrow> string list option \<Rightarrow> string option \<Rightarrow> string list option \<Rightarrow> bool \<Rightarrow> product" where
  "Product_init i n c p im d ra re op th mr co isn =
     \<lparr>pid = i, name = n, category = c, price = p, old_price = op, image_url = im,
      thumbnails = dumps_or_empty th, description = d, mock_reviews_text = mr,
      rating = ra, reviews = re, colors = dumps_or_empty co, is_new = isn\<rparr>"

text \<open>The dictionary that \<^verbatim>\<open>Product.serialize\<close> returns, one field for each key.\<close>

record product_view =
  view_id :: string
  view_name :: string
  view_category :: string
  view_price :: rat
  view_oldPrice :: "rat option"
  view_image :: string
  view_thumbnails :: "string list"
  view_description :: string
  view_mockReviewsText :: "string option"
  view_rating :: rat
  view_reviews :: int
  view_colors :: "string list"
  view_isNew :: bool

text \<open>\<^verbatim>\<open>json.loads(text) if text else []\<close>.\<close>

definition loads_or_empty :: "string \<Rightarrow> string list option" where
  "loads_or_empty s = (if s \<noteq> [] then json_loads s else Some [])"

definition serialize :: "product \<Rightarrow> error + product_view" where
  "serialize p =
     (case loads_or_empty (thumbnails p) of
        None \<Rightarrow> Inl JSONDecodeError
      | Some th \<Rightarrow>
          (case loads_or_empty (colors p) of
             None \<Rightarrow> Inl JSONDecodeError
           | Some co \<Rightarrow>
               Inr \<lparr>view_id = pid p, view_name = name p, view_category = category p,
                    view_price = price p, view_oldPrice = old_price p, view_image = image_url p,
                    view_thumbnails = th, view_description = description p,
                    view_mockReviewsText = mock_reviews_text p, view_rating = rating p,
                    view_reviews = reviews p, view_colors = co, view_isNew = is_new p\<rparr>))"

text \<open>\<^verbatim>\<open>[product.serialize() for product in products]\<close>: the first exception ends it.\<close>

fun serialize_all :: "product list \<Rightarrow> error + product_view list" where
  "serialize_all [] = Inr []"
| "serialize_all (p # ps) =
     (case serialize p of
        Inl e \<Rightarrow> Inl e
      | Inr v \<Rightarrow> (case serialize_all ps of Inl e \<Rightarrow> Inl e | Inr vs \<Rightarrow> Inr (v # vs)))"

text \<open>A row whose two JSON columns can be read back.\<close>

definition stored_ok :: "product \<Rightarrow> bool" where
  "stored_ok p = (loads_or_empty (thumbnails p) \<noteq> None \<and> loads_or_empty (colors p) \<noteq> None)"

subsection \<open>The seed catalogue\<close>

text \<open>The twelve products that \<^verbatim>\<open>init_db\<close> inserts into an empty table, in that order.\<close>

definition p1 :: product where
  "p1 =
     Product_init ''p1'' ''Ultra Protective Case'' ''cases'' (2999 / 100)
       ''https://placehold.co/400x300/A78BFA/FFFFFF?text=Case+1''
       ''Experience ultimate protection with our Ultra Protective Case. Designed with multi-layer defense, it safeguards your phone from drops, scratches, and daily wear. Its slim profile ensures it fits comfortably in your hand and pocket.''
       (48 / 10) 125
       (Some (3999 / 100))
       (Some [''https://placehold.co/100x100/A78BFA/FFFFFF?text=Case+1a'',
        ''https://placehold.co/100x100/A78BFA/FFFFFF?text=Case+1b'',
        ''https://placehold.co/100x100/A78BFA/FFFFFF?text=Case+1c'',
        ''https://placehold.co/100x100/A78BFA/FFFFFF?text=Case+1d''])
       (Some ''This case is amazing! My phone survived a really bad fall, not a scratch. A bit bulky, but worth it for the protection. Highly recommend!'')
       (Some [''#000000'',
        ''#60A5FA'',
        ''#DC2626''])
       True"

definition p2 :: product where
  "p2 =
     Product_init ''p2'' ''Tempered Glass Screen Protector'' ''protectors'' (1999 / 100)
       ''https://placehold.co/400x300/818CF8/FFFFFF?text=Protector+1''
       ''Our premium tempered glass screen protector offers edge-to-edge coverage and superior scratch resistance. Maintain crystal-clear display quality and touch sensitivity.''
       (45 / 10) 98
       None
       (Some [''https://placehold.co/100x100/818CF8/FFFFFF?text=Prot+1a'',
        ''https://placehold.co/100x100/818CF8/FFFFFF?text=Prot+1b'',
        ''https://placehold.co/100x100/818CF8/FFFFFF?text=Prot+1c'',
        ''https://placehold.co/100x100/818CF8/FFFFFF?text=Prot+1d''])
       (Some ''Easy to install, but a small bubble formed on the side. Otherwise, my screen feels well protected. Good value for money.'')
       (Some [])
       False"

definition p3 :: product where
  "p3 =
     Product_init ''p3'' ''Fast Wireless Charger Pad'' ''chargers'' (3499 / 100)
       ''https://placehold.co/400x300/C084FC/FFFFFF?text=Charger+1''
       ''Charge your phone quickly and efficiently with our Fast Wireless Charger Pad. Compatible with all Qi-enabled devices, it features overheat protection and a sleek, compact design.''
       (47 / 10) 150
       None
       (Some [''https://placehold.co/100x100/C084FC/FFFFFF?text=Charger+1a'',
        ''https://placehold.co/100x100/C084FC/FFFFFF?text=Charger+1b'',
        ''https://placehold.co/100x100/C084FC/FFFFFF?text=Charger+1c'',
        ''https://placehold.co/100x100/C084FC/FFFFFF?text=Charger+1d''])
       (Some ''Charges super fast! The design is sleek and doesn't take up much space. However, it sometimes makes a faint buzzing sound, which is a bit annoying at night.'')
       (Some [''#000000'',
        ''#E5E7EB''])
       True"

definition p4 :: product where
  "p4 =
     Product_init ''p4'' ''Universal Car Mount'' ''mounts'' (2499 / 100)
       ''https://placehold.co/400x300/A78BFA/FFFFFF?text=Mount+1''
       ''Secure your phone on the go with our Universal Car Mount. Its strong suction cup and adjustable grip ensure a stable hold on any dashboard or windshield. Perfect for navigation and hands-free calls.''
       (42 / 10) 70
       None
       (Some [''https://placehold.co/100x100/A78BFA/FFFFFF?text=Mount+1a'',
        ''https://placehold.co/100x100/A78BFA/FFFFFF?text=Mount+1b'',
        ''https://placehold.co/100x100/A78BFA/FFFFFF?text=Mount+1c'',
        ''https://placehold.co/100x100/A78BFA/FFFFFF?text=Mount+1d''])
       (Some ''The suction cup doesn't hold well in hot weather; it falls off frequently. When it does stay, it's very sturdy, but the adhesive needs improvement.'')
       (Some [])
       False"

definition p5 :: product where
  "p5 =
     Product_init ''p5'' ''Clear Hybrid Case'' ''cases'' (2299 / 100)
       ''https://placehold.co/400x300/818CF8/FFFFFF?text=Case+2''
       ''Showcase your phone's original design with our Clear Hybrid Case. Made from durable, transparent materials, it offers excellent protection without hiding your device's aesthetics.''
       (46 / 10) 80
       None
       (Some [''https://placehold.co/100x100/818CF8/FFFFFF?text=Case+2a'',
        ''https://placehold.co/100x100/818CF8/FFFFFF?text=Case+2b'',
        ''https://placehold.co/100x100/818CF8/FFFFFF?text=Case+2c'',
        ''https://placehold.co/100x100/818CF8/FFFFFF?text=Case+2d''])
       (Some ''Fits perfectly and really highlights my phone's color. It does yellow a bit over time, which is a common issue with clear cases, but it protects well.'')
       (Some [])
       False"

definition p6 :: product where
  "p6 =
     Product_init ''p6'' ''Privacy Screen Protector'' ''protectors'' (2599 / 100)
       ''https://placehold.co/400x300/C084FC/FFFFFF?text=Protector+2''
       ''Keep your screen content private from prying eyes with our Privacy Screen Protector. It offers a narrow viewing angle, ensuring only you can see what's on your display.''
       (43 / 10) 60
       None
       (Some [''https://placehold.co/100x100/C084FC/FFFFFF?text=Prot+2a'',
        ''https://placehold.co/100x100/C084FC/FFFFFF?text=Prot+2b'',
        ''https://placehold.co/100x100/C084FC/FFFFFF?text=Prot+2c'',
        ''https://placehold.co/100x100/C084FC/FFFFFF?text=Prot+2d''])
       (Some ''The privacy feature works great, but it darkens the screen a lot, even when looking straight on. It's a trade-off, I guess. Installation was tricky.'')
       (Some [])
       False"

definition p7 :: product where
  "p7 =
     Product_init ''p7'' ''Multi-Port Wall Charger'' ''chargers'' (2999 / 100)
       ''https://placehold.co/400x300/A78BFA/FFFFFF?text=Charger+2''
       ''Charge multiple devices simultaneously with our Multi-Port Wall Charger. Equipped with fast-charging technology and multiple USB ports, it's perfect for families and travelers.''
       (47 / 10) 110
       None
       (Some [''https://placehold.co/100x100/A78BFA/FFFFFF?text=Charger+2a'',
        ''https://placehold.co/100x100/A78BFA/FFFFFF?text=Charger+2b'',
        ''https://placehold.co/100x100/A78BFA/FFFFFF?text=Charger+2c'',
        ''https://placehold.co/100x100/A78BFA/FFFFFF?text=Charger+2d''])
       (Some ''This charger is a lifesaver for travel! All my devices charge at once. It gets a little warm, but nothing concerning. Very satisfied.'')
       (Some [''#000000''])
       False"

definition p8 :: product where
  "p8 =
     Product_init ''p8'' ''Magnetic Air Vent Mount'' ''mounts'' (1899 / 100)
       ''https://placehold.co/400x300/818CF8/FFFFFF?text=Mount+2''
       ''Effortlessly attach and detach your phone with our Magnetic Air Vent Mount. Its powerful magnets provide a secure grip, and the compact design keeps your dashboard clutter-free.''
       (44 / 10) 55
       None
       (Some [''https://placehold.co/100x100/818CF8/FFFFFF?text=Mount+2a'',
        ''https://placehold.co/100x100/818CF8/FFFFFF?text=Mount+2b'',
        ''https://placehold.co/100x100/818CF8/FFFFFF?text=Mount+2c'',
        ''https://placehold.co/100x100/818CF8/FFFFFF?text=Mount+2d''])
       (Some ''Great magnet, phone stays put even on bumpy roads. The only downside is it blocks some airflow from my vent, which is annoying on a hot day.'')
       (Some [])
       True"

definition p9 :: product where
  "p9 =
     Product_init ''p9'' ''Slim Fit Case'' ''cases'' (1999 / 100)
       ''https://placehold.co/400x300/C084FC/FFFFFF?text=Case+3''
       ''Our Slim Fit Case offers minimalist protection without adding bulk. Enjoy a comfortable grip and easy access to all ports and buttons.''
       (45 / 10) 90
       None
       (Some [''https://placehold.co/100x100/C084FC/FFFFFF?text=Case+3a'',
        ''https://placehold.co/100x100/C084FC/FFFFFF?text=Case+3b'',
        ''https://placehold.co/100x100/C084FC/FFFFFF?text=Case+3c'',
        ''https://placehold.co/100x100/C084FC/FFFFFF?text=Case+3d''])
       (Some ''Perfectly thin, barely notice it's there. Protection seems basic for real drops, but great for scratch prevention. Love the feel.'')
       (Some [''#000000'',
        ''#6B7280'',
        ''#D1D5DB''])
       False"

definition p10 :: product where
  "p10 =
     Product_init ''p10'' ''Matte Screen Protector'' ''protectors'' (1599 / 100)
       ''https://placehold.co/400x300/A78BFA/FFFFFF?text=Protector+3''
       ''Reduce glare and fingerprints with our Matte Screen Protector. Perfect for outdoor use, it provides a smooth, anti-glare surface while protecting your screen.''
       (41 / 10) 45
       None
       (Some [''https://placehold.co/100x100/A78BFA/FFFFFF?text=Prot+3a'',
        ''https://placehold.co/100x100/A78BFA/FFFFFF?text=Prot+3b'',
        ''https://placehold.co/100x100/A78BFA/FFFFFF?text=Prot+3c'',
        ''https://placehold.co/100x100/A78BFA/FFFFFF?text=Prot+3d''])
       (Some ''Anti-glare works wonders outdoors! Fingerprints are almost non-existent. My only complaint is it makes the screen slightly grainy, but it's a minor trade-off.'')
       (Some [])
       False"

definition p11 :: product where
  "p11 =
     Product_init ''p11'' ''Portable Power Bank'' ''chargers'' (4599 / 100)
       ''https://placehold.co/400x300/818CF8/FFFFFF?text=Power+Bank+1''
       ''Never run out of battery with our high-capacity Portable Power Bank. It features fast charging for multiple devices and a compact design for easy portability.''
       (48 / 10) 180
       (Some (55))
       (Some [''https://placehold.co/100x100/818CF8/FFFFFF?text=PB+1a'',
        ''https://placehold.co/100x100/818CF8/FFFFFF?text=PB+1b'',
        ''https://placehold.co/100x100/818CF8/FFFFFF?text=PB+1c'',
        ''https://placehold.co/100x100/818CF8/FFFFFF?text=PB+1d''])
       (Some ''This power bank is a lifesaver! I can charge my phone multiple times. It's a bit heavy, but given the capacity, that's expected. Absolutely essential for long trips.'')
       (Some [''#000000'',
        ''#FFFFFF''])
       True"

definition p12 :: product where
  "p12 =
     Product_init ''p12'' ''Bike Phone Mount'' ''mounts'' (2899 / 100)
       ''https://placehold.co/400x300/C084FC/FFFFFF?text=Bike+Mount+1''
       ''Securely attach your phone to your bike handlebars with our sturdy Bike Phone Mount. Enjoy easy access to navigation and fitness apps during your rides.''
       (4) 30
       None
       (Some [''https://placehold.co/100x100/C084FC/FFFFFF?text=Bike+M+1a'',
        ''https://placehold.co/100x100/C084FC/FFFFFF?text=Bike+M+1b'',
        ''https://placehold.co/100x100/C084FC/FFFFFF?text=Bike+M+1c'',
        ''https://placehold.co/100x100/C084FC/FFFFFF?text=Bike+M+1d''])
       (Some ''Holds my phone securely on my mountain bike, even over rough terrain. Installation was a breeze. A bit pricey but feels very durable.'')
       (Some [])
       False"

definition initial_products :: "product list" where
  "initial_products = [p1, p2, p3, p4, p5, p6, p7, p8, p9, p10, p11, p12]"

section \<open>The product listing\<close>

text \<open>
  A numeric query parameter as \<^verbatim>\<open>int(request.args.get(key, default))\<close> sees it: absent,
  a text that \<^verbatim>\<open>int\<close> reads as the given integer, or a text on which \<^verbatim>\<open>int\<close> raises
  \<^verbatim>\<open>ValueError\<close>.
\<close>

datatype query_arg = Absent | Integer int | Malformed

fun py_int :: "int \<Rightarrow> query_arg \<Rightarrow> error + int" where
  "py_int d Absent = Inr d"
| "py_int d (Integer n) = Inr n"
| "py_int d Malformed = Inl ValueError"

text \<open>
  \<^verbatim>\<open>ORDER BY\<close>: the rows in the order given by \<open>le\<close>, rows that compare equal staying
  in scan order.
\<close>

fun insert_by :: "('a \<Rightarrow> 'a \<Rightarrow> bool) \<Rightarrow> 'a \<Rightarrow> 'a list \<Rightarrow> 'a list" where
  "insert_by le x [] = [x]"
| "insert_by le x (y # ys) = (if le x y then x # y # ys else y # insert_by le x ys)"

definition order_by :: "('a \<Rightarrow> 'a \<Rightarrow> bool) \<Rightarrow> 'a list \<Rightarrow> 'a list" where
  "order_by le xs = foldr (insert_by le) xs []"

text \<open>The four orderings of \<^verbatim>\<open>get_products\<close>; text is compared byte by byte.\<close>

definition id_desc :: "product \<Rightarrow> product \<Rightarrow> bool" where
  "id_desc a b = (pid b \<le> pid a)"

definition price_asc :: "product \<Rightarrow> product \<Rightarrow> bool" where
  "price_asc a b = (price a \<le> price b)"

definition price_desc :: "product \<Rightarrow> product \<Rightarrow> bool" where
  "price_desc a b = (price b \<le> price a)"

definition reviews_desc_rating_desc :: "product \<Rightarrow> product \<Rightarrow> bool" where
  "reviews_desc_rating_desc a b =
     (reviews b < reviews a \<or> (reviews b = reviews a \<and> rating b \<le> rating a))"

text \<open>
  \<^verbatim>\<open>OFFSET\<close> and \<^verbatim>\<open>LIMIT\<close> as SQLite evaluates them: a negative offset skips
  nothing, a negative limit is no limit.
\<close>

definition sql_offset :: "int \<Rightarrow> 'a list \<Rightarrow> 'a list" where
  "sql_offset n xs = drop (nat n) xs"

definition sql_limit :: "int \<Rightarrow> 'a list \<Rightarrow> 'a list" where
  "sql_limit n xs = (if n < 0 then xs else take (nat n) xs)"

text \<open>The two steps that build the query of \<^verbatim>\<open>get_products\<close>.\<close>

definition apply_filter :: "string \<Rightarrow> product list \<Rightarrow> product list" where
  "apply_filter category_filter query =
     (if category_filter \<noteq> ''all'' then filter (\<lambda>p. category p = category_filter) query
      else query)"

definition apply_sort :: "string \<Rightarrow> product list \<Rightarrow> product list" where
  "apply_sort sort_by query =
     (if sort_by = ''newest'' then order_by id_desc query
      else if sort_by = ''price-low'' then order_by price_asc query
      else if sort_by = ''price-high'' then order_by price_desc query
      else if sort_by = ''popular'' then order_by reviews_desc_rating_desc query
      else query)"

record listing =
  listing_products :: "product_view list"
  listing_total :: int
  listing_limit :: int
  listing_offset :: int

text \<open>
  \<^verbatim>\<open>get_products()\<close> of \<^verbatim>\<open>routes.py\<close>, as a function of the \<^verbatim>\<open>products\<close> table and
  the four query parameters (\<open>None\<close> and \<open>Absent\<close> when the request has none).
\<close>

definition get_products ::
  "product list \<Rightarrow> string option \<Rightarrow> string option \<Rightarrow> query_arg \<Rightarrow> query_arg \<Rightarrow> error + listing" where
  "get_products table category_arg sort_arg limit_arg offset_arg =
     (let category_filter = lower (case category_arg of None \<Rightarrow> ''all'' | Some c \<Rightarrow> c);
          sort_by = lower (case sort_arg of None \<Rightarrow> ''popular'' | Some s \<Rightarrow> s)
      in case py_int 8 limit_arg of
           Inl e \<Rightarrow> Inl e
         | Inr limit_n \<Rightarrow>
             (case py_int 0 offset_arg of
                Inl e \<Rightarrow> Inl e
              | Inr offset_n \<Rightarrow>
                  (let query = apply_sort sort_by (apply_filter category_filter table);
                       total_products = int (length query)
                   in case serialize_all (sql_limit limit_n (sql_offset offset_n query)) of
                        Inl e \<Rightarrow> Inl e
                      | Inr serialized_products \<Rightarrow>
                          Inr \<lparr>listing_products = serialized_products,
                               listing_total = total_products,
                               listing_limit = limit_n, listing_offset = offset_n\<rparr>)))"

section \<open>Users and the authentication endpoint\<close>

subsection \<open>Password hashes\<close>

text \<open>
  \<^verbatim>\<open>werkzeug.security\<close> stores a hash as the text \<^verbatim>\<open>method$salt$digest\<close>:
  \<^verbatim>\<open>generate_password_hash\<close> draws a fresh random salt and derives the digest from salt
  and password, \<^verbatim>\<open>check_password_hash\<close> splits the stored text, derives the digest
  again from the stored salt and the supplied password and compares. The key
  derivation function \<open>kdf\<close> and the salt that is drawn are parameters of the model.
\<close>

datatype pwhash = PwHash (hash_salt: string) (hash_digest: string)

definition generate_password_hash :: "(string \<Rightarrow> string \<Rightarrow> string) \<Rightarrow> string \<Rightarrow> string \<Rightarrow> pwhash" where
  "generate_password_hash kdf salt password = PwHash salt (kdf salt password)"

definition check_password_hash :: "(string \<Rightarrow> string \<Rightarrow> string) \<Rightarrow> pwhash \<Rightarrow> string \<Rightarrow> bool" where
  "check_password_hash kdf pwh password = (kdf (hash_salt pwh) password = hash_digest pwh)"

subsection \<open>The users table\<close>

text \<open>
  \<^verbatim>\<open>class User\<close>: the primary key is assigned by the database when the row is
  inserted, so it is \<open>None\<close> on a freshly constructed object.
\<close>

record user =
  user_id :: "int option"
  user_name :: string
  email :: string
  password_hash :: pwhash

definition set_password :: "(string \<Rightarrow> string \<Rightarrow> string) \<Rightarrow> string \<Rightarrow> string \<Rightarrow> user \<Rightarrow> user" where
  "set_password kdf salt password u = u\<lparr>password_hash := generate_password_hash kdf salt password\<rparr>"

definition check_password :: "(string \<Rightarrow> string \<Rightarrow> string) \<Rightarrow> user \<Rightarrow> string \<Rightarrow> bool" where
  "check_password kdf u password = check_password_hash kdf (password_hash u) password"

definition User_init :: "(string \<Rightarrow> string \<Rightarrow> string) \<Rightarrow> string \<Rightarrow> string \<Rightarrow> string \<Rightarrow> string \<Rightarrow> user" where
  "User_init kdf salt nm em password =
     set_password kdf salt password
       \<lparr>user_id = None, user_name = nm, email = em, password_hash = PwHash [] []\<rparr>"

text \<open>\<^verbatim>\<open>User.query.filter_by(email=email).first()\<close>: the first row with that email.\<close>

definition filter_by_email_first :: "user list \<Rightarrow> string \<Rightarrow> user option" where
  "filter_by_email_first users em = find (\<lambda>u. email u = em) users"

text \<open>
  \<^verbatim>\<open>db_session.add(new_user); db_session.commit()\<close>: the row is appended with the next
  integer key (one more than the largest key in the table).
\<close>

definition next_user_id :: "user list \<Rightarrow> int" where
  "next_user_id users = foldr (\<lambda>u m. max (case user_id u of None \<Rightarrow> 0 | Some i \<Rightarrow> i) m) users 0 + 1"

definition add_commit :: "user list \<Rightarrow> user \<Rightarrow> user list" where
  "add_commit users u = users @ [u\<lparr>user_id := Some (next_user_id users)\<rparr>]"

subsection \<open>Requests and responses\<close>

text \<open>
  What \<^verbatim>\<open>request.get_json()\<close> returned: \<open>Null\<close> for \<^verbatim>\<open>None\<close>, an object with its
  fields (each a string, or \<open>None\<close> for JSON \<^verbatim>\<open>null\<close>), or any other JSON value (an
  array, a string, a number, a boolean), of which the handler only ever observes the
  truth value before it calls \<^verbatim>\<open>.get\<close> on it.
\<close>

datatype body = Null | Object "(string \<times> string option) list" | NonObject bool

fun truthy :: "body \<Rightarrow> bool" where
  "truthy Null = False"
| "truthy (Object kvs) = (kvs \<noteq> [])"
| "truthy (NonObject b) = b"

text \<open>\<^verbatim>\<open>data.get(key)\<close> on a dict: \<^verbatim>\<open>None\<close> for a missing key and for a null value.\<close>

definition dict_get :: "(string \<times> string option) list \<Rightarrow> string \<Rightarrow> string option" where
  "dict_get kvs k = (case map_of kvs k of None \<Rightarrow> None | Some v \<Rightarrow> v)"

text \<open>\<^verbatim>\<open>not v\<close> for a value that is \<^verbatim>\<open>None\<close> or a string.\<close>

fun falsy :: "string option \<Rightarrow> bool" where
  "falsy None = True"
| "falsy (Some s) = (s = [])"

text \<open>
  \<^verbatim>\<open>jsonify({'message': m, 'user': {'email': e, 'name': n}}), status\<close>; the \<^verbatim>\<open>user\<close>
  key is present in the login success response only.
\<close>

record response =
  status :: nat
  message :: string
  user_payload :: "(string \<times> string) option"

definition jsonify :: "string \<Rightarrow> (string \<times> string) option \<Rightarrow> nat \<Rightarrow> response" where
  "jsonify m u code = \<lparr>status = code, message = m, user_payload = u\<rparr>"

subsection \<open>The handler\<close>

text \<open>
  \<^verbatim>\<open>auth()\<close> of \<^verbatim>\<open>routes.py\<close>, as a function of the \<^verbatim>\<open>action\<close> query parameter
  (\<open>None\<close> when absent), the parsed body and the users table; it returns the response
  and the table after the request.
\<close>

definition auth ::
  "(string \<Rightarrow> string \<Rightarrow> string) \<Rightarrow> string \<Rightarrow> string option \<Rightarrow> body \<Rightarrow> user list
     \<Rightarrow> error + (response \<times> user list)" where
  "auth kdf salt action data users =
    (if \<not> truthy data then Inr (jsonify ''Invalid JSON data.'' None 400, users)
     else case data of
       Object kvs \<Rightarrow>
         (let em = dict_get kvs ''email'';
              password = dict_get kvs ''password''
          in if falsy em \<or> falsy password
             then Inr (jsonify ''Email and password are required.'' None 400, users)
             else if action = Some ''login'' then
               (case filter_by_email_first users (the em) of
                  Some u \<Rightarrow>
                    if check_password kdf u (the password)
                    then Inr (jsonify ''Login successful!'' (Some (email u, user_name u)) 200, users)
                    else Inr (jsonify ''Invalid email or password.'' None 401, users)
                | None \<Rightarrow> Inr (jsonify ''Invalid email or password.'' None 401, users))
             else if action = Some ''register'' then
               (let nm = dict_get kvs ''name''
                in if falsy nm
                   then Inr (jsonify ''Name is required for registration.'' None 400, users)
                   else
                     (case filter_by_email_first users (the em) of
                        Some existing_user \<Rightarrow>
                          Inr (jsonify ''User with this email already exists.'' None 409, users)
                      | None \<Rightarrow>
                          Inr (jsonify ''Registration successful! Please login.'' None 201,
                               add_commit users (User_init kdf salt (the nm) (the em) (the password)))))
             else Inr (jsonify ''Invalid authentication action.'' None 400, users))
     | _ \<Rightarrow> Inl AttributeError)"

subsection \<open>Requests served one after the other\<close>


section \<open>Properties of the JSON columns\<close>

lemma hexval_hexdigit: "k < 16 \<Longrightarrow> hexval (hexdigit k) = Some k"
proof -
  assume "k < 16"
  then have "k \<in> set [0..<16]" by simp
  then have "k \<in> {0,1,2,3,4,5,6,7,8,9,10,11,12,13,14,15}"
    by (simp add: upt_rec numeral_eq_Suc)
  then show ?thesis
    by (auto simp: hexdigit_def hexval_def)
qed

lemma hex4_byte:
  assumes "n < 256"
  shows "hex4 (CHR ''0'') (CHR ''0'') (hexdigit (n div 16)) (hexdigit (n mod 16)) = Some n"
proof -
  have a: "n div 16 < 16" using assms by simp
  have b: "n mod 16 < 16" by simp
  have z: "hexval (CHR ''0'') = Some 0" by (simp add: hexval_def)
  show ?thesis
    by (simp add: hex4_def z hexval_hexdigit[OF a] hexval_hexdigit[OF b])
qed

lemma scanstring_escape_char:
  "scanstring (escape_char c @ t) =
     (case scanstring t of None \<Rightarrow> None | Some (s, rest) \<Rightarrow> Some (c # s, rest))"
proof -
  have lt: "(of_char c :: nat) < 256" by simp
  consider (q) "c = CHR ''\"''" | (b) "c = CHR 0x5C" | (n) "c = CHR 0x0A" | (r) "c = CHR 0x0D"
    | (t) "c = CHR 0x09" | (f) "c = CHR 0x0C" | (bs) "c = CHR 0x08"
    | (plain) "c \<noteq> CHR ''\"''" "c \<noteq> CHR 0x5C" "c \<noteq> CHR 0x0A" "c \<noteq> CHR 0x0D" "c \<noteq> CHR 0x09"
          "c \<noteq> CHR 0x0C" "c \<noteq> CHR 0x08" "32 \<le> (of_char c :: nat)" "(of_char c :: nat) \<le> 126"
    | (u) "c \<noteq> CHR ''\"''" "c \<noteq> CHR 0x5C" "c \<noteq> CHR 0x0A" "c \<noteq> CHR 0x0D" "c \<noteq> CHR 0x09"
          "c \<noteq> CHR 0x0C" "c \<noteq> CHR 0x08" "\<not> (32 \<le> (of_char c :: nat) \<and> (of_char c :: nat) \<le> 126)"
    by blast
  then show ?thesis
  proof cases
    case u
    have e: "escape_char c = [CHR 0x5C, CHR ''u'', CHR ''0'', CHR ''0'',
            hexdigit (of_char c div 16), hexdigit (of_char c mod 16)]"
      using u by (simp add: escape_char_def)
    show ?thesis
      by (simp add: e hex4_byte[OF lt] split: option.splits)
  next
    case plain
    then show ?thesis by (simp add: escape_char_def split: option.splits)
  qed (simp_all add: escape_char_def unescape_def split: option.splits)
qed

lemma scanstring_encoded:
  "scanstring (concat (map escape_char s) @ CHR ''\"'' # rest) = Some (s, rest)"
  by (induction s) (simp_all add: scanstring_escape_char)

lemma parse_elements_encoded:
  "parse_elements (encode_string x @ encode_items xs @ '']'')
     = Some (x # xs)"
proof (induction xs arbitrary: x)
  case Nil
  show ?case
    by (subst parse_elements.simps) (simp add: encode_string_def scanstring_encoded skip_ws_def is_ws_def)
next
  case (Cons y ys)
  have q: "skip_ws (CHR '' '' # encode_string y @ t) = encode_string y @ t" for t
    by (simp add: skip_ws_def is_ws_def encode_string_def)
  show ?case
    by (subst parse_elements.simps)
       (simp add: encode_string_def[of x] scanstring_encoded skip_ws_def[of "CHR '','' # _"] is_ws_def q Cons.IH)
qed

lemma json_loads_dumps: "json_loads (json_dumps xs) = Some xs"
proof (cases xs)
  case Nil
  then show ?thesis by (simp add: json_loads_def skip_ws_def is_ws_def)
next
  case (Cons x ys)
  have "json_loads (json_dumps (x # ys))
          = parse_elements (encode_string x @ encode_items ys @ '']'')"
    by (simp add: json_loads_def skip_ws_def is_ws_def encode_string_def)
  then show ?thesis using Cons by (simp add: parse_elements_encoded)
qed

lemma json_dumps_nonempty: "json_dumps xs \<noteq> []"
  by (cases xs) simp_all

lemma loads_dumps_or_empty: "loads_or_empty (dumps_or_empty xs) = Some (case xs of None \<Rightarrow> [] | Some l \<Rightarrow> l)"
proof (cases xs)
  case None
  then show ?thesis
    using json_loads_dumps[of "[]"] by (simp add: loads_or_empty_def dumps_or_empty_def)
next
  case (Some l)
  show ?thesis
  proof (cases "l = []")
    case True
    with Some show ?thesis
      using json_loads_dumps[of "[]"] by (simp add: loads_or_empty_def dumps_or_empty_def)
  next
    case False
    with Some show ?thesis
      by (simp add: loads_or_empty_def dumps_or_empty_def json_dumps_nonempty json_loads_dumps)
  qed
qed


lemma stored_ok_Product_init: "stored_ok (Product_init i n c p im d ra re op th mr co isn)"
  by (simp add: stored_ok_def Product_init_def loads_dumps_or_empty)

lemma serialize_stored_ok:
  "stored_ok p \<Longrightarrow> \<exists>v. serialize p = Inr v \<and> view_id v = pid p"
  by (auto simp: stored_ok_def serialize_def split: option.splits)

lemma serialize_all_stored_ok:
  "\<forall>p\<in>set ps. stored_ok p \<Longrightarrow>
     \<exists>vs. serialize_all ps = Inr vs \<and> length vs = length ps
          \<and> (\<forall>i<length ps. serialize (ps ! i) = Inr (vs ! i))"
proof (induction ps)
  case Nil
  show ?case by simp
next
  case (Cons p ps)
  from Cons.prems obtain v where v: "serialize p = Inr v"
    using serialize_stored_ok[of p] by auto
  from Cons obtain vs where vs: "serialize_all ps = Inr vs" "length vs = length ps"
    "\<forall>i<length ps. serialize (ps ! i) = Inr (vs ! i)" by auto
  have "\<forall>i<length (p # ps). serialize ((p # ps) ! i) = Inr ((v # vs) ! i)"
    using v vs(3) by (auto simp: nth_Cons split: nat.splits)
  then show ?case using v vs by simp
qed


section \<open>Properties of the product listing\<close>

lemma Product_init_fields:
  "pid (Product_init i n c p im d ra re op th mr co isn) = i"
  "category (Product_init i n c p im d ra re op th mr co isn) = c"
  "price (Product_init i n c p im d ra re op th mr co isn) = p"
  "rating (Product_init i n c p im d ra re op th mr co isn) = ra"
  "reviews (Product_init i n c p im d ra re op th mr co isn) = re"
  by (simp_all add: Product_init_def)

lemma p1_fields:
  "pid p1 = ''p1''" "category p1 = ''cases''" "price p1 = 2999 / 100" "rating p1 = 48 / 10" "reviews p1 = 125"
  "stored_ok p1"
  by (simp_all add: p1_def Product_init_fields stored_ok_Product_init)

lemma p2_fields:
  "pid p2 = ''p2''" "category p2 = ''protectors''" "price p2 = 1999 / 100" "rating p2 = 45 / 10" "reviews p2 = 98"
  "stored_ok p2"
  by (simp_all add: p2_def Product_init_fields stored_ok_Product_init)

lemma p3_fields:
  "pid p3 = ''p3''" "category p3 = ''chargers''" "price p3 = 3499 / 100" "rating p3 = 47 / 10" "reviews p3 = 150"
  "stored_ok p3"
  by (simp_all add: p3_def Product_init_fields stored_ok_Product_init)

lemma p4_fields:
  "pid p4 = ''p4''" "category p4 = ''mounts''" "price p4 = 2499 / 100" "rating p4 = 42 / 10" "reviews p4 = 70"
  "stored_ok p4"
  by (simp_all add: p4_def Product_init_fields stored_ok_Product_init)

lemma p5_fields:
  "pid p5 = ''p5''" "category p5 = ''cases''" "price p5 = 2299 / 100" "rating p5 = 46 / 10" "reviews p5 = 80"
  "stored_ok p5"
  by (simp_all add: p5_def Product_init_fields stored_ok_Product_init)

lemma p6_fields:
  "pid p6 = ''p6''" "category p6 = ''protectors''" "price p6 = 2599 / 100" "rating p6 = 43 / 10" "reviews p6 = 60"
  "stored_ok p6"
  by (simp_all add: p6_def Product_init_fields stored_ok_Product_init)

lemma p7_fields:
  "pid p7 = ''p7''" "category p7 = ''chargers''" "price p7 = 2999 / 100" "rating p7 = 47 / 10" "reviews p7 = 110"
  "stored_ok p7"
  by (simp_all add: p7_def Product_init_fields stored_ok_Product_init)

lemma p8_fields:
  "pid p8 = ''p8''" "category p8 = ''mounts''" "price p8 = 1899 / 100" "rating p8 = 44 / 10" "reviews p8 = 55"
  "stored_ok p8"
  by (simp_all add: p8_def Product_init_fields stored_ok_Product_init)

lemma p9_fields:
  "pid p9 = ''p9''" "category p9 = ''cases''" "price p9 = 1999 / 100" "rating p9 = 45 / 10" "reviews p9 = 90"
  "stored_ok p9"
  by (simp_all add: p9_def Product_init_fields stored_ok_Product_init)

lemma p10_fields:
  "pid p10 = ''p10''" "category p10 = ''protectors''" "price p10 = 1599 / 100" "rating p10 = 41 / 10" "reviews p10 = 45"
  "stored_ok p10"
  by (simp_all add: p10_def Product_init_fields stored_ok_Product_init)

lemma p11_fields:
  "pid p11 = ''p11''" "category p11 = ''chargers''" "price p11 = 4599 / 100" "rating p11 = 48 / 10" "reviews p11 = 180"
  "stored_ok p11"
  by (simp_all add: p11_def Product_init_fields stored_ok_Product_init)

lemma p12_fields:
  "pid p12 = ''p12''" "category p12 = ''mounts''" "price p12 = 2899 / 100" "rating p12 = 4" "reviews p12 = 30"
  "stored_ok p12"
  by (simp_all add: p12_def Product_init_fields stored_ok_Product_init)

lemmas seed_fields = p1_fields p2_fields p3_fields p4_fields p5_fields p6_fields
  p7_fields p8_fields p9_fields p10_fields p11_fields p12_fields

lemma initial_products_stored_ok: "\<forall>p\<in>set initial_products. stored_ok p"
  by (simp add: initial_products_def seed_fields)

lemma set_insert_by: "set (insert_by le x xs) = insert x (set xs)"
  by (induction xs) auto

lemma set_order_by: "set (order_by le xs) = set xs"
  by (induction xs) (simp_all add: order_by_def set_insert_by)

lemma length_insert_by: "length (insert_by le x xs) = Suc (length xs)"
  by (induction xs) auto

lemma length_order_by: "length (order_by le xs) = length xs"
  by (induction xs) (simp_all add: order_by_def length_insert_by)

lemma mset_insert_by: "mset (insert_by le x xs) = add_mset x (mset xs)"
  by (induction xs) auto

lemma mset_order_by: "mset (order_by le xs) = mset xs"
  by (induction xs) (simp_all add: order_by_def mset_insert_by)

lemma sorted_wrt_insert_by:
  assumes tot: "\<And>a b. le a b \<or> le b a" and tr: "\<And>a b c. le a b \<Longrightarrow> le b c \<Longrightarrow> le a c"
  shows "sorted_wrt le xs \<Longrightarrow> sorted_wrt le (insert_by le x xs)"
proof (induction xs)
  case Nil
  show ?case by simp
next
  case (Cons y ys)
  show ?case
  proof (cases "le x y")
    case True
    have "\<forall>z\<in>set ys. le x z" using Cons.prems True tr by auto
    with True Cons.prems show ?thesis by simp
  next
    case False
    then have "le y x" using tot by blast
    with False Cons show ?thesis by (auto simp: set_insert_by)
  qed
qed

lemma sorted_wrt_order_by:
  assumes tot: "\<And>a b. le a b \<or> le b a" and tr: "\<And>a b c. le a b \<Longrightarrow> le b c \<Longrightarrow> le a c"
  shows "sorted_wrt le (order_by le xs)"
proof (induction xs)
  case Nil
  show ?case by (simp add: order_by_def)
next
  case (Cons x xs)
  have "order_by le (x # xs) = insert_by le x (order_by le xs)" by (simp add: order_by_def)
  with Cons sorted_wrt_insert_by[of le, OF tot tr] show ?case by simp
qed

lemma set_apply_sort: "set (apply_sort s q) = set q"
  by (simp add: apply_sort_def set_order_by)


lemma set_apply_filter: "set (apply_filter c q) \<subseteq> set q"
  by (auto simp: apply_filter_def)

lemma set_page: "set (sql_limit l (sql_offset off q)) \<subseteq> set q"
  by (auto simp: sql_limit_def sql_offset_def dest: in_set_takeD in_set_dropD)

lemma serialize_all_ids: "serialize_all ps = Inr vs \<Longrightarrow> map view_id vs = map pid ps"
proof (induction ps arbitrary: vs)
  case Nil
  then show ?case by simp
next
  case (Cons p ps)
  then show ?case
    by (auto simp: serialize_def split: sum.splits option.splits)
qed

lemma get_products_returns:
  fixes category_arg sort_arg :: "string option"
  assumes l: "py_int 8 limit_arg = Inr l" and off: "py_int 0 offset_arg = Inr off"
    and ok: "\<forall>p\<in>set table. stored_ok p"
  defines "query \<equiv> apply_sort (lower (case sort_arg of None \<Rightarrow> ''popular'' | Some s \<Rightarrow> s))
                     (apply_filter (lower (case category_arg of None \<Rightarrow> ''all'' | Some c \<Rightarrow> c)) table)"
  shows "\<exists>vs. get_products table category_arg sort_arg limit_arg offset_arg
                = Inr \<lparr>listing_products = vs, listing_total = int (length query),
                       listing_limit = l, listing_offset = off\<rparr>
              \<and> serialize_all (sql_limit l (sql_offset off query)) = Inr vs"
proof -
  have "set (sql_limit l (sql_offset off query)) \<subseteq> set table"
    using set_page[of l off query] set_apply_filter set_apply_sort
    unfolding query_def by blast
  with ok have "\<forall>p\<in>set (sql_limit l (sql_offset off query)). stored_ok p" by blast
  from serialize_all_stored_ok[OF this] obtain vs where
    "serialize_all (sql_limit l (sql_offset off query)) = Inr vs" by blast
  then show ?thesis
    using l off by (simp add: get_products_def query_def Let_def)
qed

lemma lower_all: "lower ''all'' = ''all''"
  by (simp add: lower_def lower_char_def)
lemma lower_popular: "lower ''popular'' = ''popular''"
  by (simp add: lower_def lower_char_def)

lemma popular_seed:
  "order_by reviews_desc_rating_desc initial_products = [p11, p3, p1, p7, p2, p9, p5, p4, p6, p8, p10, p12]"
  by (simp add: order_by_def initial_products_def reviews_desc_rating_desc_def seed_fields)

lemma newest_seed:
  "order_by id_desc initial_products = [p9, p8, p7, p6, p5, p4, p3, p2, p12, p11, p10, p1]"
  by (simp add: order_by_def initial_products_def id_desc_def seed_fields)

lemma price_low_seed:
  "order_by price_asc initial_products = [p10, p8, p2, p9, p5, p4, p6, p12, p1, p7, p3, p11]"
  by (simp add: order_by_def initial_products_def price_asc_def seed_fields)

lemma lower_foo: "lower ''foo'' = ''foo''"
  by (simp add: lower_def lower_char_def)

lemma seed_pids:
  "map pid initial_products = [''p1'', ''p2'', ''p3'', ''p4'', ''p5'', ''p6'', ''p7'', ''p8'', ''p9'', ''p10'', ''p11'', ''p12'']"
  by (simp add: initial_products_def seed_fields)

text \<open>
  Claim C1. On the seed catalogue, a request with the unrecognised sort value \<open>foo\<close>
  returns the first eight rows in table order, not in the order that \<open>popular\<close>
  gives: no branch of \<^verbatim>\<open>get_products\<close> orders the query for such a value, although
  the comment after the branches says that the default sorting is by \<open>popular\<close> if
  nothing matches.
\<close>

theorem unrecognized_sort_keeps_table_order:
  "\<exists>r r'. get_products initial_products None (Some ''foo'') Absent Absent = Inr r
        \<and> get_products initial_products None (Some ''popular'') Absent Absent = Inr r'
        \<and> map view_id (listing_products r)
            = [''p1'', ''p2'', ''p3'', ''p4'', ''p5'', ''p6'', ''p7'', ''p8'']
        \<and> map view_id (listing_products r')
            = [''p11'', ''p3'', ''p1'', ''p7'', ''p2'', ''p9'', ''p5'', ''p4'']"
proof -
  have a: "py_int 8 Absent = Inr 8" and b: "py_int 0 Absent = Inr 0" by simp_all
  from get_products_returns[OF a b initial_products_stored_ok, where sort_arg = "Some ''foo''" and category_arg = None]
  obtain vs where r: "get_products initial_products None (Some ''foo'') Absent Absent
        = Inr \<lparr>listing_products = vs, listing_total = int (length initial_products),
               listing_limit = 8, listing_offset = 0\<rparr>"
    and vs: "serialize_all (take 8 initial_products) = Inr vs"
    by (auto simp: lower_foo lower_all apply_sort_def apply_filter_def sql_limit_def sql_offset_def)
  from get_products_returns[OF a b initial_products_stored_ok, where sort_arg = "Some ''popular''" and category_arg = None]
  obtain vs' where r': "get_products initial_products None (Some ''popular'') Absent Absent
        = Inr \<lparr>listing_products = vs', listing_total = int (length initial_products),
               listing_limit = 8, listing_offset = 0\<rparr>"
    and vs': "serialize_all (take 8 (order_by reviews_desc_rating_desc initial_products)) = Inr vs'"
    by (auto simp: lower_popular lower_all apply_sort_def apply_filter_def sql_limit_def sql_offset_def
          length_order_by)
  have "map view_id vs = map pid (take 8 initial_products)"
    by (rule serialize_all_ids[OF vs])
  then have i: "map view_id vs = [''p1'', ''p2'', ''p3'', ''p4'', ''p5'', ''p6'', ''p7'', ''p8'']"
    by (simp add: take_map[symmetric] seed_pids)
  have "map view_id vs' = map pid (take 8 (order_by reviews_desc_rating_desc initial_products))"
    by (rule serialize_all_ids[OF vs'])
  then have i': "map view_id vs' = [''p11'', ''p3'', ''p1'', ''p7'', ''p2'', ''p9'', ''p5'', ''p4'']"
    by (simp add: popular_seed seed_fields)
  show ?thesis using r r' i i' by simp
qed






lemma apply_sort_unrecognized:
  "s \<noteq> ''newest'' \<Longrightarrow> s \<noteq> ''price-low'' \<Longrightarrow> s \<noteq> ''price-high'' \<Longrightarrow> s \<noteq> ''popular''
     \<Longrightarrow> apply_sort s q = q"
  by (simp add: apply_sort_def)

lemma mset_apply_sort: "mset (apply_sort s q) = mset q"
  by (simp add: apply_sort_def mset_order_by)

lemma apply_sort_newest: "sorted_wrt id_desc (apply_sort ''newest'' q)"
  unfolding apply_sort_def id_desc_def by (simp, rule sorted_wrt_order_by) auto

lemma apply_sort_price_low: "sorted_wrt price_asc (apply_sort ''price-low'' q)"
  unfolding apply_sort_def price_asc_def by (simp, rule sorted_wrt_order_by) auto

lemma apply_sort_price_high: "sorted_wrt price_desc (apply_sort ''price-high'' q)"
  unfolding apply_sort_def price_desc_def by (simp, rule sorted_wrt_order_by) auto

lemma apply_sort_popular: "sorted_wrt reviews_desc_rating_desc (apply_sort ''popular'' q)"
  unfolding apply_sort_def reviews_desc_rating_desc_def by (simp, rule sorted_wrt_order_by) auto








section \<open>Properties of the authentication endpoint\<close>

lemma auth_falsy_body:
  "\<not> truthy data \<Longrightarrow> auth kdf salt action data users = Inr (jsonify ''Invalid JSON data.'' None 400, users)"
  by (simp add: auth_def)

text \<open>
  Claim C10. A request whose body is the empty JSON object is answered with status 400
  and the message \<open>Invalid JSON data.\<close>, whatever the action and the users table; the
  answer is the one given to a missing body, and the table is left as it was.
\<close>

theorem auth_empty_object_invalid_json:
  "auth kdf salt action (Object []) users
     = Inr (\<lparr>status = 400, message = ''Invalid JSON data.'', user_payload = None\<rparr>, users)
   \<and> auth kdf salt action (Object []) users = auth kdf salt action Null users
   \<and> auth kdf salt action (Object []) users = auth kdf salt action (NonObject False) users"
  by (simp add: auth_def jsonify_def)






lemma filter_by_email_first_Some: "filter_by_email_first users e = Some u \<Longrightarrow> u \<in> set users \<and> email u = e"
  by (auto simp: filter_by_email_first_def find_Some_iff)














text \<open>
  A body that is false, or an object in which email or password is missing or empty, is
  answered with status 400 and a message that depends on neither the table, the salt
  nor the key derivation function; the table is returned as it was.
\<close>

lemma missing_credentials_rejected:
  assumes "\<not> truthy data
           \<or> (\<exists>kvs. data = Object kvs
                  \<and> (falsy (dict_get kvs ''email'') \<or> falsy (dict_get kvs ''password'')))"
  shows "\<exists>m. \<forall>kdf salt users.
           auth kdf salt action data users
             = Inr (\<lparr>status = 400, message = m, user_payload = None\<rparr>, users)"
proof (cases "truthy data")
  case False
  then show ?thesis by (auto simp: auth_def jsonify_def)
next
  case True
  with assms obtain kvs where "data = Object kvs"
    and "falsy (dict_get kvs ''email'') \<or> falsy (dict_get kvs ''password'')" by blast
  with True have "\<forall>kdf salt users. auth kdf salt action data users
      = Inr (\<lparr>status = 400, message = ''Email and password are required.'', user_payload = None\<rparr>, users)"
    by (simp add: auth_def jsonify_def)
  then show ?thesis by blast
qed

lemma missing_credentials_rejected_example:
  "auth (\<lambda>s p. s @ p) ''s1'' (Some ''login'') (Object [(''email'', Some ''a@x'')])
        [\<lparr>user_id = Some 1, user_name = ''Ann'', email = ''a@x'',
          password_hash = PwHash ''s1'' ''s1pw''\<rparr>]
     = Inr (\<lparr>status = 400, message = ''Email and password are required.'', user_payload = None\<rparr>,
            [\<lparr>user_id = Some 1, user_name = ''Ann'', email = ''a@x'',
              password_hash = PwHash ''s1'' ''s1pw''\<rparr>])"
proof -
  have "falsy (dict_get [(''email'', Some ''a@x'')] ''password'')" by (simp add: dict_get_def)
  then have "\<not> truthy (Object [(''email'', Some ''a@x'')])
     \<or> (\<exists>kvs. Object [(''email'', Some ''a@x'')] = Object kvs
            \<and> (falsy (dict_get kvs ''email'') \<or> falsy (dict_get kvs ''password'')))" by blast
  from missing_credentials_rejected[OF this, of "Some ''login''"] obtain m where
    m: "\<forall>kdf salt users. auth kdf salt (Some ''login'') (Object [(''email'', Some ''a@x'')]) users
          = Inr (\<lparr>status = 400, message = m, user_payload = None\<rparr>, users)" by blast
  have "auth (\<lambda>s p. s @ p) [] (Some ''login'') (Object [(''email'', Some ''a@x'')]) []
          = Inr (\<lparr>status = 400, message = ''Email and password are required.'', user_payload = None\<rparr>, [])"
    by (simp add: auth_def dict_get_def jsonify_def)
  with m have "m = ''Email and password are required.''" by simp
  with m show ?thesis by simp
qed

text \<open>
  Claim C6. A body that is a JSON value other than an object and is true, such as the
  array \<^verbatim>\<open>[1]\<close>, has neither email nor password, and the handler does not answer it
  with status 400: it passes the test \<^verbatim>\<open>not data\<close>, and \<^verbatim>\<open>data.get\<close> raises
  \<^verbatim>\<open>AttributeError\<close>. For objects and for false bodies the claim holds, see
  \<open>missing_credentials_rejected\<close>.
\<close>

theorem non_object_body_raises:
  "auth kdf salt action (NonObject True) users = Inl AttributeError"
  by (simp add: auth_def)

end
